theory Spec2Isabelle
  imports Main
begin

section \<open>Values, exceptions and external collaborators\<close>

text \<open>
  The program is \<^verbatim>\<open>main.py\<close>: \<^verbatim>\<open>load_config\<close>, \<^verbatim>\<open>setup_rag_system\<close> and
  \<^verbatim>\<open>main\<close>. Everything else it calls (the file system, the JSON parser, the text
  splitter, the embedding client, the vector index, the chat model) lives in libraries
  and remote services. Those are collected in the record \<open>world\<close>: each call either
  raises an exception (\<open>Inl\<close>) or returns a value (\<open>Inr\<close>).

  An exception is its class, as far as the handlers of \<^verbatim>\<open>main\<close> tell classes apart,
  and the text that \<^verbatim>\<open>str(e)\<close> gives. Every class here derives from Python's
  \<^verbatim>\<open>Exception\<close>, which is what the libraries raise; signals of the interpreter that
  derive from \<^verbatim>\<open>BaseException\<close> only (\<^verbatim>\<open>KeyboardInterrupt\<close>, \<^verbatim>\<open>SystemExit\<close>)
  are not part of the model.
\<close>

datatype exn_class =
  FileNotFoundError | JSONDecodeError | KeyError | TypeError | AttributeError
  | EOFError | UnicodeDecodeError | RecursionError | ValueError | OtherException

datatype exn = Exn (cls: exn_class) (msg: string)

text \<open>
  What \<^verbatim>\<open>json.load\<close> returns. A finite float is \<open>m * 2 ^ e\<close>, written \<open>JFloat m e\<close>;
  an object is the association list of a Python dict (its keys are distinct).
\<close>

datatype json =
  JNull | JBool bool | JInt int | JFloat int int | JStr string
  | JArr "json list" | JObj "(string \<times> json) list"

text \<open>The objects that the libraries construct, named after their constructors.\<close>

datatype document = Document string
datatype splitter = RecursiveCharacterTextSplitter json json
datatype embeddings = OpenAIEmbeddings json json
datatype vectorstore = FAISS "document list" embeddings
datatype retriever = VectorStoreRetriever vectorstore json
datatype llm = ChatOpenAI json json json
datatype qa = RetrievalQA llm retriever

text \<open>
  \<open>open_file p\<close> is \<^verbatim>\<open>open(p, "r", encoding="utf-8")\<close>: it raises, or gives the file,
  which is its bytes. \<open>file_read\<close> is \<^verbatim>\<open>f.read()\<close> on such a file, which decodes the
  bytes; \<open>json_load\<close> is \<^verbatim>\<open>json.load(f)\<close>, which reads, decodes and parses. Both raise
  whatever the library raises: \<^verbatim>\<open>json.JSONDecodeError\<close> on a text that is not a JSON
  document, but also \<^verbatim>\<open>UnicodeDecodeError\<close> on bytes that are not UTF-8 and
  \<^verbatim>\<open>RecursionError\<close> on nesting beyond the recursion limit. \<open>str_of\<close> is \<^verbatim>\<open>str(v)\<close> for a
  value that is not a string. The two answering calls take the number of lines read so
  far, so that the provider may answer the same query differently from turn to turn.
\<close>

record world =
  open_file :: "json \<Rightarrow> exn + string"
  file_read :: "string \<Rightarrow> exn + string"
  json_load :: "string \<Rightarrow> exn + json"
  os_path_exists :: "json \<Rightarrow> exn + bool"
  str_of :: "json \<Rightarrow> string"
  text_splitter :: "json \<Rightarrow> json \<Rightarrow> exn + splitter"
  create_documents :: "splitter \<Rightarrow> string \<Rightarrow> exn + document list"
  openai_embeddings :: "json \<Rightarrow> json \<Rightarrow> exn + embeddings"
  faiss_from_documents :: "document list \<Rightarrow> embeddings \<Rightarrow> exn + vectorstore"
  as_retriever :: "vectorstore \<Rightarrow> json \<Rightarrow> exn + retriever"
  chat_openai :: "json \<Rightarrow> json \<Rightarrow> json \<Rightarrow> exn + llm"
  retrieval_qa :: "llm \<Rightarrow> retriever \<Rightarrow> exn + qa"
  qa_run :: "nat \<Rightarrow> qa \<Rightarrow> string \<Rightarrow> exn + string"
  llm_predict :: "nat \<Rightarrow> llm \<Rightarrow> string \<Rightarrow> exn + string"

text \<open>What the program does that can be observed, in order.\<close>

datatype event =
  Print string | ReadLine string | QaRun qa string | LlmPredict llm string

definition bindE :: "exn + 'a \<Rightarrow> ('a \<Rightarrow> exn + 'b) \<Rightarrow> exn + 'b" where
  "bindE m f = (case m of Inl e \<Rightarrow> Inl e | Inr x \<Rightarrow> f x)"

section \<open>Python primitives the program uses\<close>

text \<open>\<^verbatim>\<open>with open(p, "r", encoding="utf-8") as f: data = f.read()\<close>\<close>

definition open_read :: "world \<Rightarrow> json \<Rightarrow> exn + string" where
  "open_read w p = bindE (open_file w p) (file_read w)"

text \<open>\<^verbatim>\<open>v[k]\<close> for a string key \<open>k\<close>. \<^verbatim>\<open>str(KeyError(k))\<close> is the key in quotes.\<close>

definition key_repr :: "string \<Rightarrow> string" where
  "key_repr k = CHR 0x27 # k @ [CHR 0x27]"

fun getitem :: "json \<Rightarrow> string \<Rightarrow> exn + json" where
  "getitem (JObj kvs) k =
     (case map_of kvs k of None \<Rightarrow> Inl (Exn KeyError (key_repr k)) | Some v \<Rightarrow> Inr v)"
| "getitem (JArr xs) k =
     Inl (Exn TypeError ''list indices must be integers or slices, not str'')"
| "getitem (JStr s) k =
     Inl (Exn TypeError (''string indices must be integers, not '' @ key_repr ''str''))"
| "getitem JNull k =
     Inl (Exn TypeError (key_repr ''NoneType'' @ '' object is not subscriptable''))"
| "getitem (JBool b) k =
     Inl (Exn TypeError (key_repr ''bool'' @ '' object is not subscriptable''))"
| "getitem (JInt n) k =
     Inl (Exn TypeError (key_repr ''int'' @ '' object is not subscriptable''))"
| "getitem (JFloat m e) k =
     Inl (Exn TypeError (key_repr ''float'' @ '' object is not subscriptable''))"

text \<open>\<^verbatim>\<open>config[a][b]\<close>\<close>

definition getitem2 :: "json \<Rightarrow> string \<Rightarrow> string \<Rightarrow> exn + json" where
  "getitem2 c a b = bindE (getitem c a) (\<lambda>d. getitem d b)"

text \<open>\<^verbatim>\<open>str(v)\<close>, as the f-string of the warning applies it.\<close>

fun py_str :: "world \<Rightarrow> json \<Rightarrow> string" where
  "py_str w (JStr s) = s"
| "py_str w v = str_of w v"

text \<open>
  Strings are lists of code points below 256. \<^verbatim>\<open>str.isspace\<close>, \<^verbatim>\<open>str.lower\<close> and
  \<^verbatim>\<open>str.strip\<close> on that range.
\<close>

definition py_isspace :: "char \<Rightarrow> bool" where
  "py_isspace c = ((of_char c :: nat) \<in> {9, 10, 11, 12, 13, 28, 29, 30, 31, 32, 133, 160})"

definition lower_char :: "char \<Rightarrow> char" where
  "lower_char c =
     (let n = (of_char c :: nat)
      in if (65 \<le> n \<and> n \<le> 90) \<or> (192 \<le> n \<and> n \<le> 222 \<and> n \<noteq> 215)
         then char_of (n + 32) else c)"

definition py_lower :: "string \<Rightarrow> string" where
  "py_lower s = map lower_char s"

definition py_strip :: "string \<Rightarrow> string" where
  "py_strip s = rev (dropWhile py_isspace (rev (dropWhile py_isspace s)))"

section \<open>load_config\<close>

text \<open>
  \<^verbatim>\<open>with open("config.json", "r", encoding="utf-8") as f: return json.load(f)\<close>.
  There is no handler here: what \<^verbatim>\<open>open\<close> or \<^verbatim>\<open>json.load\<close> raises leaves the function
  as it is.
\<close>

definition load_config :: "world \<Rightarrow> exn + json" where
  "load_config w =
     (case open_file w (JStr ''config.json'') of
        Inl e \<Rightarrow> Inl e
      | Inr f \<Rightarrow> json_load w f)"

section \<open>setup_rag_system\<close>

definition absent_warning :: "world \<Rightarrow> json \<Rightarrow> string" where
  "absent_warning w knowledge_file =
     ''Warning: '' @ py_str w knowledge_file
       @ '' tidak ditemukan. Chatbot akan bekerja tanpa knowledge base.''"

text \<open>
  Everything after the existence test: read, split, embed, index, retriever, chat
  model, chain. The lookups in \<open>config\<close> happen where the source evaluates them, so a
  missing key is met only when the statements before it have succeeded.
\<close>

definition build_rag :: "world \<Rightarrow> json \<Rightarrow> json \<Rightarrow> exn + qa option \<times> llm option" where
  "build_rag w config knowledge_file =
     bindE (open_read w knowledge_file) (\<lambda>data.
     bindE (getitem2 config ''rag'' ''chunk_size'') (\<lambda>chunk_size.
     bindE (getitem2 config ''rag'' ''chunk_overlap'') (\<lambda>chunk_overlap.
     bindE (text_splitter w chunk_size chunk_overlap) (\<lambda>splitter.
     bindE (create_documents w splitter data) (\<lambda>docs.
     bindE (getitem2 config ''openai'' ''embedding_model'') (\<lambda>embedding_model.
     bindE (getitem2 config ''openai'' ''api_key'') (\<lambda>api_key.
     bindE (openai_embeddings w embedding_model api_key) (\<lambda>embeddings.
     bindE (faiss_from_documents w docs embeddings) (\<lambda>vectorstore.
     bindE (getitem2 config ''rag'' ''similarity_search_k'') (\<lambda>k.
     bindE (as_retriever w vectorstore k) (\<lambda>retriever.
     bindE (getitem2 config ''openai'' ''model'') (\<lambda>model.
     bindE (getitem2 config ''openai'' ''temperature'') (\<lambda>temperature.
     bindE (getitem2 config ''openai'' ''api_key'') (\<lambda>api_key'.
     bindE (chat_openai w model temperature api_key') (\<lambda>llm.
     bindE (retrieval_qa w llm retriever) (\<lambda>qa.
     Inr (Some qa, Some llm)))))))))))))))))"

text \<open>The printed lines and the outcome: an exception, or the pair \<^verbatim>\<open>(qa, llm)\<close>.\<close>

definition setup_rag_system ::
  "world \<Rightarrow> json \<Rightarrow> event list \<times> (exn + qa option \<times> llm option)" where
  "setup_rag_system w config =
     (case getitem2 config ''data'' ''knowledge_file'' of
        Inl e \<Rightarrow> ([], Inl e)
      | Inr knowledge_file \<Rightarrow>
          (case os_path_exists w knowledge_file of
             Inl e \<Rightarrow> ([], Inl e)
           | Inr ex \<Rightarrow>
               if \<not> ex
               then ([Print (absent_warning w knowledge_file)], Inr (None, None))
               else ([], build_rag w config knowledge_file)))"

section \<open>main\<close>

definition prompt :: string where
  "prompt = CHR 0x0A # ''[Anda]: ''"

definition exit_words :: "string list" where
  "exit_words = [''quit'', ''exit'', ''keluar'']"

definition eof_error :: exn where
  "eof_error = Exn EOFError ''EOF when reading a line''"

text \<open>
  The body of the inner \<^verbatim>\<open>try\<close>: \<^verbatim>\<open>qa.run(query)\<close> when \<^verbatim>\<open>qa\<close> is set, otherwise
  \<^verbatim>\<open>llm.predict(query)\<close>, which raises \<^verbatim>\<open>AttributeError\<close> on \<^verbatim>\<open>None\<close>.
\<close>

definition answer ::
  "world \<Rightarrow> qa option \<Rightarrow> llm option \<Rightarrow> nat \<Rightarrow> string \<Rightarrow> event list \<times> (exn + string)" where
  "answer w qa llm n query =
     (case qa of
        Some q \<Rightarrow> ([QaRun q query], qa_run w n q query)
      | None \<Rightarrow>
          (case llm of
             Some l \<Rightarrow> ([LlmPredict l query], llm_predict w n l query)
           | None \<Rightarrow>
               ([], Inl (Exn AttributeError
                  (key_repr ''NoneType'' @ '' object has no attribute ''
                     @ key_repr ''predict'')))))"

datatype loop_state = Running | Terminated

text \<open>One pass through the body of \<^verbatim>\<open>while True\<close> on a line that \<^verbatim>\<open>input\<close> returned.\<close>

definition turn ::
  "world \<Rightarrow> qa option \<Rightarrow> llm option \<Rightarrow> nat \<Rightarrow> string \<Rightarrow> event list \<times> loop_state" where
  "turn w qa llm n line =
     (let query = py_strip line
      in if py_lower query \<in> set exit_words
         then ([ReadLine prompt,
                Print (CHR 0x0A # ''[Bye] Terima kasih! Sampai jumpa!'')], Terminated)
         else if query = [] then ([ReadLine prompt], Running)
         else
           (case answer w qa llm n query of
              (calls, Inr result) \<Rightarrow>
                (ReadLine prompt # calls @ [Print (CHR 0x0A # ''[Bot]: '' @ result)],
                 Running)
            | (calls, Inl e) \<Rightarrow>
                (ReadLine prompt # calls @ [Print (CHR 0x0A # ''[Error]: '' @ msg e)],
                 Running)))"

text \<open>
  The loop over standard input, given as the lines still to be read. \<^verbatim>\<open>input\<close> raises
  \<^verbatim>\<open>EOFError\<close> when there is none left; that exception leaves the loop. The result
  is the trace and the exception that left the loop, if any (\<open>None\<close> after \<^verbatim>\<open>break\<close>).
\<close>

fun session_loop ::
  "world \<Rightarrow> qa option \<Rightarrow> llm option \<Rightarrow> nat \<Rightarrow> string list \<Rightarrow> event list \<times> exn option" where
  "session_loop w qa llm n [] = ([ReadLine prompt], Some eof_error)"
| "session_loop w qa llm n (line # rest) =
     (case turn w qa llm n line of
        (evs, Terminated) \<Rightarrow> (evs, None)
      | (evs, Running) \<Rightarrow>
          (case session_loop w qa llm (Suc n) rest of
             (evs', r) \<Rightarrow> (evs @ evs', r)))"

text \<open>The \<^verbatim>\<open>if qa: ... else: ...\<close> of \<^verbatim>\<open>main\<close>: the line printed and the chat model in use.\<close>

definition select_llm ::
  "world \<Rightarrow> json \<Rightarrow> qa option \<Rightarrow> llm option \<Rightarrow> event list \<times> (exn + llm option)" where
  "select_llm w config qa llm =
     (if qa \<noteq> None
      then ([Print ''[OK] RAG system berhasil diinisialisasi''], Inr llm)
      else ([Print ''[Warning] RAG system tidak tersedia, menggunakan LLM saja''],
            bindE (getitem2 config ''openai'' ''model'') (\<lambda>model.
            bindE (getitem2 config ''openai'' ''temperature'') (\<lambda>temperature.
            bindE (getitem2 config ''openai'' ''api_key'') (\<lambda>api_key.
            bindE (chat_openai w model temperature api_key) (\<lambda>l.
            Inr (Some l)))))))"

definition loop_header :: "event list" where
  "loop_header =
     [Print (CHR 0x0A # ''Ketik pertanyaan Anda (ketik '' @ key_repr ''quit''
               @ '' atau '' @ key_repr ''exit'' @ '' untuk keluar):''),
      Print (replicate 40 CHR ''-'')]"

text \<open>The body of the outer \<^verbatim>\<open>try\<close>: its trace and the exception that left it.\<close>

definition main_try :: "world \<Rightarrow> string list \<Rightarrow> event list \<times> exn option" where
  "main_try w stdin =
     (case load_config w of
        Inl e \<Rightarrow> ([], Some e)
      | Inr config \<Rightarrow>
          (case setup_rag_system w config of
             (out, Inl e) \<Rightarrow> (Print ''[OK] Konfigurasi berhasil dimuat'' # out, Some e)
           | (out, Inr (qa, llm)) \<Rightarrow>
               (case select_llm w config qa llm of
                  (sel, Inl e) \<Rightarrow>
                    (Print ''[OK] Konfigurasi berhasil dimuat'' # out @ sel, Some e)
                | (sel, Inr llm') \<Rightarrow>
                    (case session_loop w qa llm' 0 stdin of
                       (evs, r) \<Rightarrow>
                         (Print ''[OK] Konfigurasi berhasil dimuat'' # out @ sel
                            @ loop_header @ evs, r)))))"

text \<open>The three \<^verbatim>\<open>except\<close> clauses of \<^verbatim>\<open>main\<close>, in their order.\<close>

definition error_report :: "exn \<Rightarrow> string" where
  "error_report e =
     (if cls e = FileNotFoundError then ''[Error] config.json tidak ditemukan!''
      else if cls e = JSONDecodeError then ''[Error] Format config.json tidak valid!''
      else ''[Error]: '' @ msg e)"

definition banner :: "event list" where
  "banner = [Print ''[Bot] Chatbot RAG - Sesi Tanya Jawab'', Print (replicate 40 CHR ''='')]"

text \<open>\<^verbatim>\<open>main\<close> on a world and the lines of standard input: the trace of the run.\<close>

definition main :: "world \<Rightarrow> string list \<Rightarrow> event list" where
  "main w stdin =
     (case main_try w stdin of
        (evs, None) \<Rightarrow> banner @ evs
      | (evs, Some e) \<Rightarrow> banner @ evs @ [Print (error_report e)])"

section \<open>Reading a trace\<close>

fun is_read :: "event \<Rightarrow> bool" where
  "is_read (ReadLine p) = True"
| "is_read ev = False"

fun is_qa_run :: "event \<Rightarrow> bool" where
  "is_qa_run (QaRun q s) = True"
| "is_qa_run ev = False"

fun is_call :: "event \<Rightarrow> bool" where
  "is_call (QaRun q s) = True"
| "is_call (LlmPredict l s) = True"
| "is_call ev = False"

text \<open>
  The queries of a session in the words of the specification: the stripped lines that
  are neither empty nor an exit keyword, up to the first exit keyword.
\<close>

fun asked :: "string list \<Rightarrow> string list" where
  "asked [] = []"
| "asked (line # rest) =
     (if py_lower (py_strip line) \<in> set exit_words then []
      else if py_strip line = [] then asked rest
      else py_strip line # asked rest)"

section \<open>A configuration document and small worlds\<close>

text \<open>The Configuration of the specification and the document that holds it.\<close>

record configuration =
  cfg_knowledge_file :: string
  cfg_chunk_size :: int
  cfg_chunk_overlap :: int
  cfg_similarity_search_k :: int
  cfg_api_key :: string
  cfg_embedding_model :: string
  cfg_model :: string
  cfg_temperature :: "int \<times> int"

definition config_doc :: "configuration \<Rightarrow> json" where
  "config_doc c =
     JObj [(''openai'', JObj [(''api_key'', JStr (cfg_api_key c)),
                             (''model'', JStr (cfg_model c)),
                             (''embedding_model'', JStr (cfg_embedding_model c)),
                             (''temperature'',
                                JFloat (fst (cfg_temperature c)) (snd (cfg_temperature c)))]),
           (''rag'', JObj [(''chunk_size'', JInt (cfg_chunk_size c)),
                          (''chunk_overlap'', JInt (cfg_chunk_overlap c)),
                          (''similarity_search_k'', JInt (cfg_similarity_search_k c))]),
           (''data'', JObj [(''knowledge_file'', JStr (cfg_knowledge_file c))])]"

definition demo_config :: configuration where
  "demo_config =
     \<lparr>cfg_knowledge_file = ''notes.txt'', cfg_chunk_size = 200, cfg_chunk_overlap = 50,
      cfg_similarity_search_k = 3, cfg_api_key = ''sk-demo'',
      cfg_embedding_model = ''text-embedding-3-small'', cfg_model = ''gpt-4o-mini'',
      cfg_temperature = (0, 0)\<rparr>"


text \<open>
  A world over a table of files and a table of what \<^verbatim>\<open>json.load\<close> does on a content
  (a content that is not in the table is rejected as not being JSON). Every file can be
  decoded, every library constructor succeeds; the provider fails on odd turns and answers
  on even ones.
\<close>

definition demo_world ::
  "(string \<times> string) list \<Rightarrow> (string \<times> (exn + json)) list \<Rightarrow> world" where
  "demo_world files docs =
     \<lparr>open_file = (\<lambda>p. case p of
          JStr s \<Rightarrow>
            (case map_of files s of
               None \<Rightarrow> Inl (Exn FileNotFoundError
                              (''[Errno 2] No such file or directory: '' @ key_repr s))
             | Some t \<Rightarrow> Inr t)
        | _ \<Rightarrow> Inl (Exn TypeError ''expected str, bytes or os.PathLike object'')),
      file_read = (\<lambda>f. Inr f),
      json_load = (\<lambda>f. case map_of docs f of
          None \<Rightarrow> Inl (Exn JSONDecodeError ''Expecting value: line 1 column 1 (char 0)'')
        | Some r \<Rightarrow> r),
      os_path_exists = (\<lambda>p. case p of
          JStr s \<Rightarrow> Inr (map_of files s \<noteq> None)
        | _ \<Rightarrow> Inl (Exn TypeError ''stat: path should be string, bytes, os.PathLike or integer'')),
      str_of = (\<lambda>v. ''<value>''),
      text_splitter = (\<lambda>cs co. Inr (RecursiveCharacterTextSplitter cs co)),
      create_documents = (\<lambda>sp t. Inr [Document t]),
      openai_embeddings = (\<lambda>m k. Inr (OpenAIEmbeddings m k)),
      faiss_from_documents = (\<lambda>ds e. Inr (FAISS ds e)),
      as_retriever = (\<lambda>v k. Inr (VectorStoreRetriever v k)),
      chat_openai = (\<lambda>m t k. Inr (ChatOpenAI m t k)),
      retrieval_qa = (\<lambda>l r. Inr (RetrievalQA l r)),
      qa_run = (\<lambda>n q s. if even n then Inr (''rag: '' @ s)
                        else Inl (Exn OtherException ''Connection error.'')),
      llm_predict = (\<lambda>n l s. if even n then Inr (''llm: '' @ s)
                             else Inl (Exn OtherException ''Connection error.''))\<rparr>"

text \<open>The same world with an embedding provider that cannot be reached.\<close>

definition offline_world ::
  "(string \<times> string) list \<Rightarrow> (string \<times> (exn + json)) list \<Rightarrow> world" where
  "offline_world files docs =
     (demo_world files docs)
       \<lparr>faiss_from_documents := (\<lambda>ds e. Inl (Exn OtherException ''Connection error.''))\<rparr>"

text \<open>
  The worlds of the examples: a valid configuration whose knowledge file is absent, one
  whose knowledge file is present while the embedding provider is out of reach,
  configurations that lack a section or a key, and two configuration files that are not
  JSON documents: two hundred thousand opening brackets, on which \<^verbatim>\<open>json.load\<close> exceeds
  the recursion limit, and a file in UTF-16, whose bytes \<^verbatim>\<open>json.load\<close> cannot decode.
\<close>

definition world_absent :: world where
  "world_absent = demo_world [(''config.json'', ''cfg'')] [(''cfg'', Inr (config_doc demo_config))]"

definition world_offline :: world where
  "world_offline =
     offline_world [(''config.json'', ''cfg''), (''notes.txt'', ''Paris is the capital of France.'')]
       [(''cfg'', Inr (config_doc demo_config))]"




definition demo_llm :: llm where
  "demo_llm = ChatOpenAI (JStr ''gpt-4o-mini'') (JFloat 0 0) (JStr ''sk-demo'')"

definition world_deep :: world where
  "world_deep =
     demo_world [(''config.json'', replicate 200000 CHR ''['')]
       [(replicate 200000 CHR ''['',
         Inl (Exn RecursionError
           ''maximum recursion depth exceeded while decoding a JSON array from a unicode string''))]"

definition world_utf16 :: world where
  "world_utf16 =
     demo_world [(''config.json'', [CHR 0xFF, CHR 0xFE, CHR ''{'', CHR 0x00, CHR ''}'', CHR 0x00])]
       [([CHR 0xFF, CHR 0xFE, CHR ''{'', CHR 0x00, CHR ''}'', CHR 0x00],
         Inl (Exn UnicodeDecodeError
           (key_repr ''utf-8'' @ '' codec can'' @ [CHR 0x27]
              @ ''t decode byte 0xff in position 0: invalid start byte'')))]"




section \<open>The keys that startup reads\<close>









section \<open>Auxiliary facts\<close>

lemma py_strip_blank: "(\<forall>c\<in>set s. py_isspace c) \<Longrightarrow> py_strip s = []"
  by (auto simp: py_strip_def dest: set_dropWhileD)

lemma py_strip_empty_iff: "py_strip s = [] \<longleftrightarrow> (\<forall>c\<in>set s. py_isspace c)"
proof
  assume "py_strip s = []"
  then have all: "\<forall>x\<in>set (dropWhile py_isspace s). py_isspace x"
    by (simp add: py_strip_def)
  have "dropWhile py_isspace s = []"
  proof (rule ccontr)
    assume ne: "dropWhile py_isspace s \<noteq> []"
    then have "\<not> py_isspace (hd (dropWhile py_isspace s))" by (rule hd_dropWhile)
    moreover have "hd (dropWhile py_isspace s) \<in> set (dropWhile py_isspace s)"
      using ne by simp
    ultimately show False using all by blast
  qed
  then show "\<forall>c\<in>set s. py_isspace c" by simp
next
  assume "\<forall>c\<in>set s. py_isspace c"
  then show "py_strip s = []" by (rule py_strip_blank)
qed

lemma empty_not_exit: "py_lower [] \<notin> set exit_words"
  by (simp add: py_lower_def exit_words_def)

lemma main_setup_fails:
  "load_config w = Inr config \<Longrightarrow> setup_rag_system w config = (out, Inl e) \<Longrightarrow>
   main w stdin = banner @ Print ''[OK] Konfigurasi berhasil dimuat'' # out @ [Print (error_report e)]"
  by (simp add: main_def main_try_def)

lemma main_select_fails:
  "load_config w = Inr config \<Longrightarrow> setup_rag_system w config = (out, Inr (qa, llm)) \<Longrightarrow>
   select_llm w config qa llm = (sel, Inl e) \<Longrightarrow>
   main w stdin = banner @ Print ''[OK] Konfigurasi berhasil dimuat'' # out @ sel @ [Print (error_report e)]"
  by (simp add: main_def main_try_def)

lemma main_enters_loop:
  "load_config w = Inr config \<Longrightarrow> setup_rag_system w config = (out, Inr (qa, llm)) \<Longrightarrow>
   select_llm w config qa llm = (sel, Inr llm') \<Longrightarrow>
   main w stdin = banner @ Print ''[OK] Konfigurasi berhasil dimuat'' # out @ sel @ loop_header
      @ fst (session_loop w qa llm' 0 stdin)
      @ (case snd (session_loop w qa llm' 0 stdin) of None \<Rightarrow> [] | Some e \<Rightarrow> [Print (error_report e)])"
  by (cases "session_loop w qa llm' 0 stdin") (simp add: main_def main_try_def split: option.splits)

lemma session_loop_Running:
  "turn w qa llm n line = (evs, Running) \<Longrightarrow>
   session_loop w qa llm n (line # rest) =
     (evs @ fst (session_loop w qa llm (Suc n) rest), snd (session_loop w qa llm (Suc n) rest))"
  by (simp split: prod.splits)

lemma answer_calls_not_read: "filter is_read (fst (answer w qa llm n q)) = []"
  by (simp add: answer_def split: option.splits)

lemma turn_reads: "filter is_read (fst (turn w qa llm n line)) = [ReadLine prompt]"
proof (cases "answer w qa llm n (py_strip line)")
  case (Pair calls r)
  have "filter is_read calls = []"
    using answer_calls_not_read [of w qa llm n "py_strip line"] Pair by simp
  then show ?thesis
    using Pair by (cases r) (simp_all add: turn_def Let_def)
qed

lemma turn_calls_plain:
  "filter is_call (fst (turn w None (Some l) n line)) =
     (if py_lower (py_strip line) \<in> set exit_words \<or> py_strip line = [] then []
      else [LlmPredict l (py_strip line)])"
  by (cases "llm_predict w n l (py_strip line)") (simp_all add: turn_def answer_def Let_def)

lemma turn_calls_rag:
  "filter is_call (fst (turn w (Some q) llm n line)) =
     (if py_lower (py_strip line) \<in> set exit_words \<or> py_strip line = [] then []
      else [QaRun q (py_strip line)])"
  by (cases "qa_run w n q (py_strip line)") (simp_all add: turn_def answer_def Let_def)

lemma turn_state:
  "snd (turn w qa llm n line) =
     (if py_lower (py_strip line) \<in> set exit_words then Terminated else Running)"
  by (cases "answer w qa llm n (py_strip line)"; cases "snd (answer w qa llm n (py_strip line))")
     (simp_all add: turn_def Let_def)

lemma session_loop_Cons:
  "session_loop w qa llm n (line # rest) =
     (if py_lower (py_strip line) \<in> set exit_words
      then (fst (turn w qa llm n line), None)
      else (fst (turn w qa llm n line) @ fst (session_loop w qa llm (Suc n) rest),
            snd (session_loop w qa llm (Suc n) rest)))"
proof (cases "turn w qa llm n line")
  case (Pair evs st)
  with turn_state [of w qa llm n line] show ?thesis
    by (cases "session_loop w qa llm (Suc n) rest") (auto split: if_splits)
qed

lemma session_loop_calls_plain:
  "filter is_call (fst (session_loop w None (Some l) n stdin)) = map (LlmPredict l) (asked stdin)"
proof (induction stdin arbitrary: n)
  case Nil
  show ?case by simp
next
  case (Cons line rest)
  show ?case
    by (simp only: session_loop_Cons) (simp add: turn_calls_plain Cons.IH)
qed

lemma session_loop_calls_rag:
  "filter is_call (fst (session_loop w (Some q) llm n stdin)) = map (QaRun q) (asked stdin)"
proof (induction stdin arbitrary: n)
  case Nil
  show ?case by simp
next
  case (Cons line rest)
  show ?case
    by (simp only: session_loop_Cons) (simp add: turn_calls_rag Cons.IH)
qed

lemma session_loop_outcome:
  "snd (session_loop w qa llm n stdin) = None \<or> snd (session_loop w qa llm n stdin) = Some eof_error"
proof (induction stdin arbitrary: n)
  case Nil
  show ?case by simp
next
  case (Cons line rest)
  show ?case
    using Cons.IH [of "Suc n"] by (simp only: session_loop_Cons) simp
qed

lemma session_loop_reads_le:
  "length (filter is_read (fst (session_loop w qa llm n stdin))) \<le> Suc (length stdin)"
proof (induction stdin arbitrary: n)
  case Nil
  show ?case by simp
next
  case (Cons line rest)
  show ?case
    using Cons.IH [of "Suc n"] by (simp only: session_loop_Cons) (simp add: turn_reads)
qed

lemma session_loop_no_exit:
  "\<forall>line\<in>set stdin. py_lower (py_strip line) \<notin> set exit_words \<Longrightarrow>
   snd (session_loop w qa llm n stdin) = Some eof_error
   \<and> length (filter is_read (fst (session_loop w qa llm n stdin))) = Suc (length stdin)"
proof (induction stdin arbitrary: n)
  case Nil
  show ?case by simp
next
  case (Cons line rest)
  then show ?case
    by (simp only: session_loop_Cons) (simp add: turn_reads)
qed

lemma demo_open_file:
  "open_file (demo_world files docs) (JStr s) =
     (case map_of files s of
        None \<Rightarrow> Inl (Exn FileNotFoundError
                       (''[Errno 2] No such file or directory: '' @ key_repr s))
      | Some t \<Rightarrow> Inr t)"
  by (simp add: demo_world_def)

lemma demo_json_load:
  "json_load (demo_world files docs) f =
     (case map_of docs f of
        None \<Rightarrow> Inl (Exn JSONDecodeError ''Expecting value: line 1 column 1 (char 0)'')
      | Some r \<Rightarrow> r)"
  by (simp add: demo_world_def)

lemma filter_qa_run_calls: "filter is_qa_run evs = filter is_qa_run (filter is_call evs)"
proof (induction evs)
  case Nil
  show ?case by simp
next
  case (Cons ev evs)
  then show ?case by (cases ev) simp_all
qed

lemma filter_qa_run_plain: "filter is_qa_run (map (LlmPredict l) qs) = []"
  by (induction qs) simp_all

lemma no_qa_run_plain:
  assumes "filter is_call evs = map (LlmPredict l) qs"
  shows "filter is_qa_run evs = []"
proof -
  have "filter is_qa_run evs = filter is_qa_run (filter is_call evs)"
    by (rule filter_qa_run_calls)
  also have "\<dots> = filter is_qa_run (map (LlmPredict l) qs)"
    by (simp only: assms)
  also have "\<dots> = []"
    by (rule filter_qa_run_plain)
  finally show ?thesis .
qed

lemma config_doc_fields:
  "getitem2 (config_doc c) ''data'' ''knowledge_file'' = Inr (JStr (cfg_knowledge_file c))"
  "getitem2 (config_doc c) ''rag'' ''chunk_size'' = Inr (JInt (cfg_chunk_size c))"
  "getitem2 (config_doc c) ''rag'' ''chunk_overlap'' = Inr (JInt (cfg_chunk_overlap c))"
  "getitem2 (config_doc c) ''rag'' ''similarity_search_k'' =
     Inr (JInt (cfg_similarity_search_k c))"
  "getitem2 (config_doc c) ''openai'' ''api_key'' = Inr (JStr (cfg_api_key c))"
  "getitem2 (config_doc c) ''openai'' ''embedding_model'' = Inr (JStr (cfg_embedding_model c))"
  "getitem2 (config_doc c) ''openai'' ''model'' = Inr (JStr (cfg_model c))"
  "getitem2 (config_doc c) ''openai'' ''temperature'' =
     Inr (JFloat (fst (cfg_temperature c)) (snd (cfg_temperature c)))"
  by (simp_all add: config_doc_def getitem2_def bindE_def)




























section \<open>The configuration loader\<close>

text \<open>
  C4, as the claim states it, fails: on a configuration file that is not a JSON document
  \<^verbatim>\<open>load_config\<close> need not raise \<^verbatim>\<open>json.JSONDecodeError\<close>. It has no handler, so it
  raises what \<^verbatim>\<open>json.load\<close> raises, and on two hundred thousand opening brackets that
  is \<^verbatim>\<open>RecursionError\<close>.
\<close>

theorem parse_failure_counterexample:
  "open_file world_deep (JStr ''config.json'') = Inr (replicate 200000 CHR ''['')
   \<and> load_config world_deep =
       Inl (Exn RecursionError
         ''maximum recursion depth exceeded while decoding a JSON array from a unicode string'')
   \<and> cls (Exn RecursionError
         ''maximum recursion depth exceeded while decoding a JSON array from a unicode string'')
       \<noteq> JSONDecodeError"
  by (simp add: load_config_def world_deep_def demo_open_file demo_json_load)

text \<open>
  C4, amended. \<^verbatim>\<open>load_config\<close> raises what \<^verbatim>\<open>open\<close> raises (\<^verbatim>\<open>FileNotFoundError\<close> when
  the file is missing) and what \<^verbatim>\<open>json.load\<close> raises on the content, unchanged: it raises
  \<^verbatim>\<open>json.JSONDecodeError\<close> exactly when \<^verbatim>\<open>json.load\<close> does. For every document that
  \<^verbatim>\<open>json.load\<close> returns it returns that document, with nothing added, dropped or
  converted: for the document of a Configuration, every field read back from the result
  is the field of the Configuration.
\<close>

theorem load_config_outcomes:
  "(open_file w (JStr ''config.json'') = Inl e \<longrightarrow> load_config w = Inl e)
   \<and> (open_file w (JStr ''config.json'') = Inr f \<and> json_load w f = Inl e
      \<longrightarrow> load_config w = Inl e)
   \<and> (open_file w (JStr ''config.json'') = Inr f
      \<longrightarrow> (\<exists>e'. load_config w = Inl e' \<and> cls e' = JSONDecodeError)
          = (\<exists>e'. json_load w f = Inl e' \<and> cls e' = JSONDecodeError))
   \<and> (open_file w (JStr ''config.json'') = Inr f \<and> json_load w f = Inr doc
      \<longrightarrow> load_config w = Inr doc)
   \<and> (open_file w (JStr ''config.json'') = Inr f \<and> json_load w f = Inr (config_doc c)
      \<longrightarrow> bindE (load_config w) (\<lambda>d. getitem2 d ''data'' ''knowledge_file'') =
            Inr (JStr (cfg_knowledge_file c))
        \<and> bindE (load_config w) (\<lambda>d. getitem2 d ''rag'' ''chunk_size'') =
            Inr (JInt (cfg_chunk_size c))
        \<and> bindE (load_config w) (\<lambda>d. getitem2 d ''rag'' ''chunk_overlap'') =
            Inr (JInt (cfg_chunk_overlap c))
        \<and> bindE (load_config w) (\<lambda>d. getitem2 d ''rag'' ''similarity_search_k'') =
            Inr (JInt (cfg_similarity_search_k c))
        \<and> bindE (load_config w) (\<lambda>d. getitem2 d ''openai'' ''api_key'') =
            Inr (JStr (cfg_api_key c))
        \<and> bindE (load_config w) (\<lambda>d. getitem2 d ''openai'' ''embedding_model'') =
            Inr (JStr (cfg_embedding_model c))
        \<and> bindE (load_config w) (\<lambda>d. getitem2 d ''openai'' ''model'') =
            Inr (JStr (cfg_model c))
        \<and> bindE (load_config w) (\<lambda>d. getitem2 d ''openai'' ''temperature'') =
            Inr (JFloat (fst (cfg_temperature c)) (snd (cfg_temperature c))))"
proof -
  {
    assume "open_file w (JStr ''config.json'') = Inr f"
      and "json_load w f = Inr (config_doc c)"
    then have "load_config w = Inr (config_doc c)"
      by (simp add: load_config_def)
    then have "bindE (load_config w) (\<lambda>d. getitem2 d a b) = getitem2 (config_doc c) a b" for a b
      by (simp add: bindE_def)
  }
  then show ?thesis
    by (simp add: load_config_def config_doc_fields)
qed

theorem load_config_outcomes_witness:
  "load_config (demo_world [] []) =
     Inl (Exn FileNotFoundError
            (''[Errno 2] No such file or directory: '' @ key_repr ''config.json''))
   \<and> load_config (demo_world [(''config.json'', ''not json'')] []) =
     Inl (Exn JSONDecodeError ''Expecting value: line 1 column 1 (char 0)'')
   \<and> load_config (demo_world [(''config.json'', ''cfg'')] [(''cfg'', Inr (config_doc demo_config))]) =
     Inr (config_doc demo_config)
   \<and> bindE (load_config (demo_world [(''config.json'', ''cfg'')]
                 [(''cfg'', Inr (config_doc demo_config))]))
         (\<lambda>d. getitem2 d ''rag'' ''chunk_size'') = Inr (JInt 200)"
proof -
  have a: "open_file (demo_world [] []) (JStr ''config.json'') =
             Inl (Exn FileNotFoundError
                    (''[Errno 2] No such file or directory: '' @ key_repr ''config.json''))"
    by (simp add: demo_open_file)
  have b: "open_file (demo_world [(''config.json'', ''not json'')] []) (JStr ''config.json'') = Inr ''not json''
           \<and> json_load (demo_world [(''config.json'', ''not json'')] []) ''not json'' =
               Inl (Exn JSONDecodeError ''Expecting value: line 1 column 1 (char 0)'')"
    by (simp add: demo_open_file demo_json_load)
  have c: "open_file (demo_world [(''config.json'', ''cfg'')]
                        [(''cfg'', Inr (config_doc demo_config))])
             (JStr ''config.json'') = Inr ''cfg''
           \<and> json_load (demo_world [(''config.json'', ''cfg'')]
                          [(''cfg'', Inr (config_doc demo_config))])
               ''cfg'' = Inr (config_doc demo_config)"
    by (simp add: demo_open_file demo_json_load)
  have 1: "load_config (demo_world [] []) =
     Inl (Exn FileNotFoundError
            (''[Errno 2] No such file or directory: '' @ key_repr ''config.json''))"
    using a load_config_outcomes [of "demo_world [] []"
          "Exn FileNotFoundError
             (''[Errno 2] No such file or directory: '' @ key_repr ''config.json'')"]
    by blast
  have 2: "load_config (demo_world [(''config.json'', ''not json'')] []) =
     Inl (Exn JSONDecodeError ''Expecting value: line 1 column 1 (char 0)'')"
    using b load_config_outcomes [of "demo_world [(''config.json'', ''not json'')] []"
          "Exn JSONDecodeError ''Expecting value: line 1 column 1 (char 0)''" "''not json''"]
    by blast
  have 3: "load_config (demo_world [(''config.json'', ''cfg'')]
                          [(''cfg'', Inr (config_doc demo_config))]) =
     Inr (config_doc demo_config)"
    using c load_config_outcomes [of
          "demo_world [(''config.json'', ''cfg'')] [(''cfg'', Inr (config_doc demo_config))]"
          _ "''cfg''" "config_doc demo_config"]
    by blast
  have 4: "bindE (load_config (demo_world [(''config.json'', ''cfg'')]
                 [(''cfg'', Inr (config_doc demo_config))]))
         (\<lambda>d. getitem2 d ''rag'' ''chunk_size'') = Inr (JInt (cfg_chunk_size demo_config))"
    using c load_config_outcomes [of
          "demo_world [(''config.json'', ''cfg'')] [(''cfg'', Inr (config_doc demo_config))]"
          _ "''cfg''" _ demo_config]
    by blast
  have 5: "cfg_chunk_size demo_config = 200" by (simp add: demo_config_def)
  show ?thesis using 1 2 3 4 [unfolded 5] by blast
qed

text \<open>
  C5, as the claim states it, fails: a configuration file in UTF-16 is malformed content,
  and \<^verbatim>\<open>main\<close> prints for it no fixed message but the text of the
  \<^verbatim>\<open>UnicodeDecodeError\<close>, through its last \<^verbatim>\<open>except\<close> clause.
\<close>

theorem undecodable_config_counterexample:
  "open_file world_utf16 (JStr ''config.json'') =
       Inr [CHR 0xFF, CHR 0xFE, CHR ''{'', CHR 0x00, CHR ''}'', CHR 0x00]
   \<and> main world_utf16 [''hello'', ''quit''] =
       banner @ [Print (''[Error]: '' @ key_repr ''utf-8'' @ '' codec can'' @ [CHR 0x27]
              @ ''t decode byte 0xff in position 0: invalid start byte'')]
   \<and> main world_utf16 [''hello'', ''quit''] \<noteq>
       banner @ [Print ''[Error] Format config.json tidak valid!'']"
  by code_simp

text \<open>
  C5, amended. Every failure of \<^verbatim>\<open>load_config\<close> is fatal to startup: \<^verbatim>\<open>main\<close> prints the
  banner and one line and returns; no prompt is shown and no line of standard input is
  read. The line is the fixed message of the category when the file is missing
  (\<^verbatim>\<open>FileNotFoundError\<close>) and when \<^verbatim>\<open>json.load\<close> raises \<^verbatim>\<open>json.JSONDecodeError\<close>; for
  any other exception of \<^verbatim>\<open>json.load\<close> it is \<^verbatim>\<open>[Error]:\<close> with the exception's text.
\<close>

theorem config_errors_fatal:
  "(open_file w (JStr ''config.json'') = Inl e \<and> cls e = FileNotFoundError
      \<longrightarrow> main w stdin = banner @ [Print ''[Error] config.json tidak ditemukan!'']
          \<and> filter is_read (main w stdin) = [])
   \<and> (open_file w (JStr ''config.json'') = Inr f \<and> json_load w f = Inl e
       \<and> cls e = JSONDecodeError
      \<longrightarrow> main w stdin = banner @ [Print ''[Error] Format config.json tidak valid!'']
          \<and> filter is_read (main w stdin) = [])
   \<and> (open_file w (JStr ''config.json'') = Inr f \<and> json_load w f = Inl e
       \<and> cls e \<noteq> JSONDecodeError \<and> cls e \<noteq> FileNotFoundError
      \<longrightarrow> main w stdin = banner @ [Print (''[Error]: '' @ msg e)]
          \<and> filter is_read (main w stdin) = [])
   \<and> (load_config w = Inl e
      \<longrightarrow> main w stdin = banner @ [Print (error_report e)]
          \<and> filter is_read (main w stdin) = [])"
  by (simp add: main_def main_try_def load_config_def error_report_def banner_def)

theorem config_errors_fatal_witness:
  "main (demo_world [] []) [''hello'', ''quit''] =
     banner @ [Print ''[Error] config.json tidak ditemukan!'']
   \<and> main (demo_world [(''config.json'', ''not json'')] []) [''hello'', ''quit''] =
     banner @ [Print ''[Error] Format config.json tidak valid!'']
   \<and> main world_deep [''hello'', ''quit''] =
     banner @ [Print (''[Error]: ''
       @ ''maximum recursion depth exceeded while decoding a JSON array from a unicode string'')]"
proof -
  have a: "open_file (demo_world [] []) (JStr ''config.json'') =
             Inl (Exn FileNotFoundError
                    (''[Errno 2] No such file or directory: '' @ key_repr ''config.json''))"
    by (simp add: demo_open_file)
  have b: "open_file (demo_world [(''config.json'', ''not json'')] []) (JStr ''config.json'') = Inr ''not json''
           \<and> json_load (demo_world [(''config.json'', ''not json'')] []) ''not json'' =
               Inl (Exn JSONDecodeError ''Expecting value: line 1 column 1 (char 0)'')"
    by (simp add: demo_open_file demo_json_load)
  have c: "open_file world_deep (JStr ''config.json'') = Inr (replicate 200000 CHR ''['')
           \<and> json_load world_deep (replicate 200000 CHR ''['') =
               Inl (Exn RecursionError
                 ''maximum recursion depth exceeded while decoding a JSON array from a unicode string'')"
    by (simp add: world_deep_def demo_open_file demo_json_load)
  have 1: "main (demo_world [] []) [''hello'', ''quit''] =
     banner @ [Print ''[Error] config.json tidak ditemukan!'']"
    using a config_errors_fatal [of "demo_world [] []"
          "Exn FileNotFoundError
             (''[Errno 2] No such file or directory: '' @ key_repr ''config.json'')"
          "[''hello'', ''quit'']"]
    by simp
  have 2: "main (demo_world [(''config.json'', ''not json'')] []) [''hello'', ''quit''] =
     banner @ [Print ''[Error] Format config.json tidak valid!'']"
    using b config_errors_fatal [of "demo_world [(''config.json'', ''not json'')] []"
          "Exn JSONDecodeError ''Expecting value: line 1 column 1 (char 0)''"
          "[''hello'', ''quit'']" "''not json''"]
    by simp
  have 3: "main world_deep [''hello'', ''quit''] =
     banner @ [Print (''[Error]: ''
       @ ''maximum recursion depth exceeded while decoding a JSON array from a unicode string'')]"
    using c config_errors_fatal [of world_deep
          "Exn RecursionError
             ''maximum recursion depth exceeded while decoding a JSON array from a unicode string''"
          "[''hello'', ''quit'']" "replicate 200000 CHR ''[''"]
    by simp
  show ?thesis using 1 2 3 by blast
qed

section \<open>The session loop\<close>

text \<open>
  C2. A line whose stripped and lowercased form is one of \<^verbatim>\<open>quit\<close>, \<^verbatim>\<open>exit\<close>,
  \<^verbatim>\<open>keluar\<close> ends the loop: the turn prints the farewell and goes to \<open>Terminated\<close>, the
  loop returns without reading the rest of the input, and neither \<^verbatim>\<open>qa.run\<close> nor
  \<^verbatim>\<open>llm.predict\<close> is called for that line.
\<close>

theorem exit_keyword_terminates:
  assumes "py_lower (py_strip line) \<in> set exit_words"
  shows "turn w qa llm n line =
           ([ReadLine prompt, Print (CHR 0x0A # ''[Bye] Terima kasih! Sampai jumpa!'')], Terminated)
    \<and> session_loop w qa llm n (line # rest) =
           ([ReadLine prompt, Print (CHR 0x0A # ''[Bye] Terima kasih! Sampai jumpa!'')], None)
    \<and> filter is_call (fst (session_loop w qa llm n (line # rest))) = []"
  using assms by (simp add: turn_def)

theorem exit_keyword_terminates_witness:
  "session_loop (demo_world [] []) None None 0 [''quit'', ''what is RAG?''] =
     ([ReadLine prompt, Print (CHR 0x0A # ''[Bye] Terima kasih! Sampai jumpa!'')], None)
   \<and> session_loop (demo_world [] []) None None 0 [''QUIT'', ''what is RAG?''] =
     ([ReadLine prompt, Print (CHR 0x0A # ''[Bye] Terima kasih! Sampai jumpa!'')], None)
   \<and> session_loop (demo_world [] []) None None 0 [''Exit'', ''what is RAG?''] =
     ([ReadLine prompt, Print (CHR 0x0A # ''[Bye] Terima kasih! Sampai jumpa!'')], None)
   \<and> session_loop (demo_world [] []) None None 0 [''keluar'', ''what is RAG?''] =
     ([ReadLine prompt, Print (CHR 0x0A # ''[Bye] Terima kasih! Sampai jumpa!'')], None)
   \<and> session_loop (demo_world [] []) None None 0 [''  KeLuAr '', ''what is RAG?''] =
     ([ReadLine prompt, Print (CHR 0x0A # ''[Bye] Terima kasih! Sampai jumpa!'')], None)"
proof -
  have h1: "py_lower (py_strip ''quit'') \<in> set exit_words" by code_simp
  have h2: "py_lower (py_strip ''QUIT'') \<in> set exit_words" by code_simp
  have h3: "py_lower (py_strip ''Exit'') \<in> set exit_words" by code_simp
  have h4: "py_lower (py_strip ''keluar'') \<in> set exit_words" by code_simp
  have h5: "py_lower (py_strip ''  KeLuAr '') \<in> set exit_words" by code_simp
  show ?thesis
    using exit_keyword_terminates [OF h1, of "demo_world [] []" None None 0 "[''what is RAG?'']"]
      exit_keyword_terminates [OF h2, of "demo_world [] []" None None 0 "[''what is RAG?'']"]
      exit_keyword_terminates [OF h3, of "demo_world [] []" None None 0 "[''what is RAG?'']"]
      exit_keyword_terminates [OF h4, of "demo_world [] []" None None 0 "[''what is RAG?'']"]
      exit_keyword_terminates [OF h5, of "demo_world [] []" None None 0 "[''what is RAG?'']"]
    by blast
qed

text \<open>
  C8. A line that is empty or consists of whitespace only leaves the loop in \<open>Running\<close>:
  the turn shows the prompt and nothing else, no answering call is made, and the loop goes
  on with the next line.
\<close>

theorem blank_input_reprompts:
  assumes "\<forall>c\<in>set line. py_isspace c"
  shows "turn w qa llm n line = ([ReadLine prompt], Running)
    \<and> session_loop w qa llm n (line # rest) =
           (ReadLine prompt # fst (session_loop w qa llm (Suc n) rest),
            snd (session_loop w qa llm (Suc n) rest))
    \<and> filter is_call (fst (turn w qa llm n line)) = []"
proof -
  have "py_strip line = []" using assms by (rule py_strip_blank)
  then have t: "turn w qa llm n line = ([ReadLine prompt], Running)"
    by (simp add: turn_def empty_not_exit)
  show ?thesis
    using t session_loop_Running [OF t, of rest] by simp
qed

theorem blank_input_reprompts_witness:
  "turn (demo_world [] []) None None 0 [CHR 0x20, CHR 0x09, CHR 0xA0] =
       ([ReadLine prompt], Running)
   \<and> session_loop (demo_world [] []) None None 0 [[CHR 0x20, CHR 0x09, CHR 0xA0], []] =
       ([ReadLine prompt, ReadLine prompt, ReadLine prompt], Some eof_error)"
proof -
  have h: "\<forall>c\<in>set [CHR 0x20, CHR 0x09, CHR 0xA0]. py_isspace c"
    by (simp add: py_isspace_def)
  have e: "\<forall>c\<in>set []. py_isspace c" by simp
  show ?thesis
    using blank_input_reprompts [OF h, of "demo_world [] []" None None 0 "[[]]"]
      blank_input_reprompts [OF e, of "demo_world [] []" None None 1 "[]"]
    by simp
qed



text \<open>
  C9. When standard input is exhausted, \<^verbatim>\<open>input\<close> raises \<^verbatim>\<open>EOFError\<close> and the loop is
  left: on the empty input the loop shows the prompt once and ends. On any input the loop
  ends in one of two ways only, by \<^verbatim>\<open>break\<close> or by that \<^verbatim>\<open>EOFError\<close>, after at most one
  read more than there are lines. Without an exit keyword it reads every line, meets the
  end of input, and \<^verbatim>\<open>main\<close> prints the error line and returns.
\<close>

theorem end_of_input_terminates:
  "session_loop w qa llm n [] = ([ReadLine prompt], Some eof_error)
   \<and> (snd (session_loop w qa llm n stdin) = None
       \<or> snd (session_loop w qa llm n stdin) = Some eof_error)
   \<and> length (filter is_read (fst (session_loop w qa llm n stdin))) \<le> Suc (length stdin)
   \<and> ((\<forall>line\<in>set stdin. py_lower (py_strip line) \<notin> set exit_words)
       \<longrightarrow> snd (session_loop w qa llm n stdin) = Some eof_error
         \<and> length (filter is_read (fst (session_loop w qa llm n stdin))) = Suc (length stdin)
         \<and> (load_config w = Inr config
            \<and> setup_rag_system w config = (out, Inr (qa, llm0))
            \<and> select_llm w config qa llm0 = (sel, Inr llm) \<and> n = 0
            \<longrightarrow> main w stdin =
                  banner @ Print ''[OK] Konfigurasi berhasil dimuat'' # out @ sel @ loop_header
                    @ fst (session_loop w qa llm 0 stdin)
                    @ [Print ''[Error]: EOF when reading a line'']))"
proof -
  have er: "error_report eof_error = ''[Error]: EOF when reading a line''"
    by (simp add: error_report_def eof_error_def)
  {
    assume ne: "\<forall>line\<in>set stdin. py_lower (py_strip line) \<notin> set exit_words"
    note a = session_loop_no_exit [OF ne, of w qa llm n]
    {
      assume lc: "load_config w = Inr config"
        and su: "setup_rag_system w config = (out, Inr (qa, llm0))"
        and sl: "select_llm w config qa llm0 = (sel, Inr llm)" and n: "n = 0"
      have "main w stdin =
                  banner @ Print ''[OK] Konfigurasi berhasil dimuat'' # out @ sel @ loop_header
                    @ fst (session_loop w qa llm 0 stdin)
                    @ [Print ''[Error]: EOF when reading a line'']"
        using main_enters_loop [OF lc su sl, of stdin] a n er by simp
    }
    with a have "snd (session_loop w qa llm n stdin) = Some eof_error
         \<and> length (filter is_read (fst (session_loop w qa llm n stdin))) = Suc (length stdin)
         \<and> (load_config w = Inr config
            \<and> setup_rag_system w config = (out, Inr (qa, llm0))
            \<and> select_llm w config qa llm0 = (sel, Inr llm) \<and> n = 0
            \<longrightarrow> main w stdin =
                  banner @ Print ''[OK] Konfigurasi berhasil dimuat'' # out @ sel @ loop_header
                    @ fst (session_loop w qa llm 0 stdin)
                    @ [Print ''[Error]: EOF when reading a line''])"
      by blast
  }
  then show ?thesis
    using session_loop_outcome [of w qa llm n stdin] session_loop_reads_le [of w qa llm n stdin]
    by (simp del: session_loop.simps(2))
qed

theorem end_of_input_terminates_witness:
  "session_loop world_absent None (Some demo_llm) 0 [''hello'', '' ''] =
      ([ReadLine prompt, LlmPredict demo_llm ''hello'', Print (CHR 0x0A # ''[Bot]: llm: hello''),
        ReadLine prompt, ReadLine prompt], Some eof_error)
   \<and> main world_absent [''hello'', '' ''] =
       banner @ [Print ''[OK] Konfigurasi berhasil dimuat'',
                 Print ''Warning: notes.txt tidak ditemukan. Chatbot akan bekerja tanpa knowledge base.'',
                 Print ''[Warning] RAG system tidak tersedia, menggunakan LLM saja'']
         @ loop_header
         @ [ReadLine prompt, LlmPredict demo_llm ''hello'', Print (CHR 0x0A # ''[Bot]: llm: hello''),
            ReadLine prompt, ReadLine prompt, Print ''[Error]: EOF when reading a line'']"
proof -
  have ne: "\<forall>line\<in>set [''hello'', '' '']. py_lower (py_strip line) \<notin> set exit_words"
    by code_simp
  have lc: "load_config world_absent = Inr (config_doc demo_config)" by code_simp
  have su: "setup_rag_system world_absent (config_doc demo_config) =
      ([Print ''Warning: notes.txt tidak ditemukan. Chatbot akan bekerja tanpa knowledge base.''],
       Inr (None, None))" by code_simp
  have sl: "select_llm world_absent (config_doc demo_config) None None =
      ([Print ''[Warning] RAG system tidak tersedia, menggunakan LLM saja''],
       Inr (Some demo_llm))" by code_simp
  have f: "fst (session_loop world_absent None (Some demo_llm) 0 [''hello'', '' '']) =
      [ReadLine prompt, LlmPredict demo_llm ''hello'', Print (CHR 0x0A # ''[Bot]: llm: hello''),
        ReadLine prompt, ReadLine prompt]" by code_simp
  note t = end_of_input_terminates [of world_absent None "Some demo_llm" 0 "[''hello'', '' '']"
        "config_doc demo_config" _ None _]
  have s: "snd (session_loop world_absent None (Some demo_llm) 0 [''hello'', '' '']) = Some eof_error"
    using t ne by blast
  have m: "main world_absent [''hello'', '' ''] =
       banner @ Print ''[OK] Konfigurasi berhasil dimuat''
         # [Print ''Warning: notes.txt tidak ditemukan. Chatbot akan bekerja tanpa knowledge base.'']
         @ [Print ''[Warning] RAG system tidak tersedia, menggunakan LLM saja'']
         @ loop_header
         @ fst (session_loop world_absent None (Some demo_llm) 0 [''hello'', '' ''])
         @ [Print ''[Error]: EOF when reading a line'']"
    using t ne lc su sl by blast
  show ?thesis
    using s f m by (simp add: prod_eq_iff)
qed

section \<open>The choice of the answering path\<close>

text \<open>
  C3. With \<^verbatim>\<open>qa\<close> unset, the answering calls of a session are exactly one
  \<^verbatim>\<open>llm.predict\<close> per query, on the same chat model, in the order of the queries; with
  \<^verbatim>\<open>qa\<close> set they are exactly one \<^verbatim>\<open>qa.run\<close> per query on the same chain. So the path
  is chosen once, before the loop. When setup returns no chain, the whole run of \<^verbatim>\<open>main\<close>
  contains no \<^verbatim>\<open>qa.run\<close>.
\<close>

theorem variant_fixed_at_startup:
  "filter is_call (fst (session_loop w None (Some l) n stdin)) = map (LlmPredict l) (asked stdin)
   \<and> filter is_call (fst (session_loop w (Some q) llm n stdin)) = map (QaRun q) (asked stdin)
   \<and> (load_config w = Inr config \<and> setup_rag_system w config = (out, Inr (None, llm0))
        \<longrightarrow> filter is_qa_run (main w stdin) = []
          \<and> (select_llm w config None llm0 = (sel, Inr (Some l'))
              \<longrightarrow> filter is_call (main w stdin) = map (LlmPredict l') (asked stdin)))"
proof -
  have not_call_banner: "filter is_call banner = []" by (simp add: banner_def)
  have not_call_header: "filter is_call loop_header = []" by (simp add: loop_header_def)
  {
    assume lc: "load_config w = Inr config"
      and su: "setup_rag_system w config = (out, Inr (None, llm0))"
    have out: "filter is_call out = []"
      using su by (auto simp: setup_rag_system_def split: sum.splits if_splits)
    obtain s r where sl: "select_llm w config None llm0 = (s, r)"
      by (cases "select_llm w config None llm0")
    have s: "filter is_call s = []"
      using sl by (auto simp: select_llm_def)
    have r: "r = Inr None \<Longrightarrow> False"
      using sl by (auto simp: select_llm_def bindE_def split: sum.splits)
    have failed: "filter is_call (main w stdin) = []" if "r = Inl e" for e
      using that main_select_fails [OF lc su, of s e stdin] sl out s not_call_banner by simp
    have entered: "filter is_call (main w stdin) = map (LlmPredict l) (asked stdin)"
      if "r = Inr (Some l)" for l
      using that main_enters_loop [OF lc su, of s "Some l" stdin] sl out s
        not_call_banner not_call_header session_loop_calls_plain [of w l 0 stdin]
      by (simp split: option.splits)
    have noqa: "filter is_qa_run (main w stdin) = []"
    proof (cases r)
      case (Inl e)
      then show ?thesis
        using failed no_qa_run_plain [of "main w stdin" _ "[]"] by simp
    next
      case (Inr lo)
      with r obtain l where "r = Inr (Some l)" by (cases lo) auto
      then show ?thesis
        using entered no_qa_run_plain [of "main w stdin" l "asked stdin"] by simp
    qed
    have "filter is_qa_run (main w stdin) = []
          \<and> (select_llm w config None llm0 = (sel, Inr (Some l'))
              \<longrightarrow> filter is_call (main w stdin) = map (LlmPredict l') (asked stdin))"
      using noqa entered [of l'] sl by auto
  }
  then show ?thesis
    using session_loop_calls_plain [of w l n stdin] session_loop_calls_rag [of w q llm n stdin]
    by blast
qed

theorem variant_fixed_at_startup_witness:
  "filter is_qa_run (main world_absent [''What is the capital of France?'', ''quit'']) = []
   \<and> filter is_call (main world_absent [''What is the capital of France?'', ''quit'']) =
       [LlmPredict demo_llm ''What is the capital of France?'']"
proof -
  have lc: "load_config world_absent = Inr (config_doc demo_config)" by code_simp
  have su: "setup_rag_system world_absent (config_doc demo_config) =
      ([Print ''Warning: notes.txt tidak ditemukan. Chatbot akan bekerja tanpa knowledge base.''],
       Inr (None, None))" by code_simp
  have sl: "select_llm world_absent (config_doc demo_config) None None =
      ([Print ''[Warning] RAG system tidak tersedia, menggunakan LLM saja''],
       Inr (Some demo_llm))" by code_simp
  have a: "asked [''What is the capital of France?'', ''quit''] =
      [''What is the capital of France?'']" by code_simp
  show ?thesis
    using variant_fixed_at_startup [of world_absent demo_llm 0
        "[''What is the capital of France?'', ''quit'']" _ None
        "config_doc demo_config" _ None _ demo_llm] lc su sl a
    by simp
qed

section \<open>Setup\<close>

text \<open>
  C6. When the configured knowledge file does not exist, \<^verbatim>\<open>setup_rag_system\<close> raises
  nothing: it prints the warning that names the file and returns \<^verbatim>\<open>(None, None)\<close>. \<^verbatim>\<open>main\<close>
  then builds the chat model alone and, once that is built, runs the session loop on the
  plain path.
\<close>

theorem knowledge_file_absent:
  assumes "getitem2 config ''data'' ''knowledge_file'' = Inr kf"
    and "os_path_exists w kf = Inr False"
  shows "setup_rag_system w config = ([Print (absent_warning w kf)], Inr (None, None))
    \<and> (load_config w = Inr config
        \<and> getitem2 config ''openai'' ''model'' = Inr m
        \<and> getitem2 config ''openai'' ''temperature'' = Inr t
        \<and> getitem2 config ''openai'' ''api_key'' = Inr k
        \<and> chat_openai w m t k = Inr l
        \<longrightarrow> main w stdin =
              banner @ [Print ''[OK] Konfigurasi berhasil dimuat'',
                        Print (absent_warning w kf),
                        Print ''[Warning] RAG system tidak tersedia, menggunakan LLM saja'']
                @ loop_header @ fst (session_loop w None (Some l) 0 stdin)
                @ (case snd (session_loop w None (Some l) 0 stdin) of
                     None \<Rightarrow> [] | Some e \<Rightarrow> [Print (error_report e)]))"
proof -
  have su: "setup_rag_system w config = ([Print (absent_warning w kf)], Inr (None, None))"
    using assms by (simp add: setup_rag_system_def)
  {
    assume lc: "load_config w = Inr config"
      and g: "getitem2 config ''openai'' ''model'' = Inr m"
        "getitem2 config ''openai'' ''temperature'' = Inr t"
        "getitem2 config ''openai'' ''api_key'' = Inr k"
      and c: "chat_openai w m t k = Inr l"
    have sel: "select_llm w config None None =
        ([Print ''[Warning] RAG system tidak tersedia, menggunakan LLM saja''], Inr (Some l))"
      using g c by (simp add: select_llm_def bindE_def)
    have "main w stdin =
              banner @ [Print ''[OK] Konfigurasi berhasil dimuat'',
                        Print (absent_warning w kf),
                        Print ''[Warning] RAG system tidak tersedia, menggunakan LLM saja'']
                @ loop_header @ fst (session_loop w None (Some l) 0 stdin)
                @ (case snd (session_loop w None (Some l) 0 stdin) of
                     None \<Rightarrow> [] | Some e \<Rightarrow> [Print (error_report e)])"
      using main_enters_loop [OF lc su sel, of stdin] by simp
  }
  with su show ?thesis by blast
qed

theorem knowledge_file_absent_witness:
  "setup_rag_system world_absent (config_doc demo_config) =
      ([Print ''Warning: notes.txt tidak ditemukan. Chatbot akan bekerja tanpa knowledge base.''],
       Inr (None, None))
   \<and> main world_absent [''What is the capital of France?'', ''quit''] =
       banner @ [Print ''[OK] Konfigurasi berhasil dimuat'',
                 Print ''Warning: notes.txt tidak ditemukan. Chatbot akan bekerja tanpa knowledge base.'',
                 Print ''[Warning] RAG system tidak tersedia, menggunakan LLM saja'']
         @ loop_header
         @ [ReadLine prompt, LlmPredict demo_llm ''What is the capital of France?'',
            Print (CHR 0x0A # ''[Bot]: llm: What is the capital of France?''),
            ReadLine prompt, Print (CHR 0x0A # ''[Bye] Terima kasih! Sampai jumpa!'')]"
proof -
  have kf: "getitem2 (config_doc demo_config) ''data'' ''knowledge_file'' = Inr (JStr ''notes.txt'')"
    by code_simp
  have ex: "os_path_exists world_absent (JStr ''notes.txt'') = Inr False" by code_simp
  have lc: "load_config world_absent = Inr (config_doc demo_config)" by code_simp
  have g: "getitem2 (config_doc demo_config) ''openai'' ''model'' = Inr (JStr ''gpt-4o-mini'')"
    "getitem2 (config_doc demo_config) ''openai'' ''temperature'' = Inr (JFloat 0 0)"
    "getitem2 (config_doc demo_config) ''openai'' ''api_key'' = Inr (JStr ''sk-demo'')"
    by code_simp+
  have c: "chat_openai world_absent (JStr ''gpt-4o-mini'') (JFloat 0 0) (JStr ''sk-demo'') =
      Inr demo_llm" by code_simp
  have w: "absent_warning world_absent (JStr ''notes.txt'') =
      ''Warning: notes.txt tidak ditemukan. Chatbot akan bekerja tanpa knowledge base.''"
    by code_simp
  have l: "session_loop world_absent None (Some demo_llm) 0
             [''What is the capital of France?'', ''quit''] =
      ([ReadLine prompt, LlmPredict demo_llm ''What is the capital of France?'',
            Print (CHR 0x0A # ''[Bot]: llm: What is the capital of France?''),
            ReadLine prompt, Print (CHR 0x0A # ''[Bye] Terima kasih! Sampai jumpa!'')], None)"
    by code_simp
  show ?thesis
    using knowledge_file_absent [OF kf ex, of "JStr ''gpt-4o-mini''" "JFloat 0 0"
        "JStr ''sk-demo''" demo_llm "[''What is the capital of France?'', ''quit'']"]
      lc g c
    by (simp only: w l) simp
qed

text \<open>
  C7. When the knowledge file is there and has been read and split, and building the
  embedding client or the index raises, \<^verbatim>\<open>setup_rag_system\<close> has no handler: the exception
  leaves it. \<^verbatim>\<open>main\<close> reports it through its \<^verbatim>\<open>except\<close> clauses and returns; no prompt is
  shown, no line is read, no answering call is made.
\<close>

theorem embedding_failure_aborts:
  assumes "getitem2 config ''data'' ''knowledge_file'' = Inr kf"
    and "os_path_exists w kf = Inr True"
    and "open_read w kf = Inr data"
    and "getitem2 config ''rag'' ''chunk_size'' = Inr cs"
    and "getitem2 config ''rag'' ''chunk_overlap'' = Inr co"
    and "text_splitter w cs co = Inr sp"
    and "create_documents w sp data = Inr docs"
    and "getitem2 config ''openai'' ''embedding_model'' = Inr em"
    and "getitem2 config ''openai'' ''api_key'' = Inr key"
    and "openai_embeddings w em key = Inl e
         \<or> (openai_embeddings w em key = Inr emb \<and> faiss_from_documents w docs emb = Inl e)"
  shows "setup_rag_system w config = ([], Inl e)
    \<and> (load_config w = Inr config
        \<longrightarrow> main w stdin =
              banner @ [Print ''[OK] Konfigurasi berhasil dimuat'', Print (error_report e)]
            \<and> filter is_read (main w stdin) = []
            \<and> filter is_call (main w stdin) = [])"
proof -
  have b: "build_rag w config kf = Inl e"
    using assms by (auto simp: build_rag_def bindE_def)
  have su: "setup_rag_system w config = ([], Inl e)"
    using assms(1,2) b by (simp add: setup_rag_system_def)
  {
    assume lc: "load_config w = Inr config"
    have m: "main w stdin =
              banner @ [Print ''[OK] Konfigurasi berhasil dimuat'', Print (error_report e)]"
      using main_setup_fails [OF lc su, of stdin] by simp
    have "main w stdin =
              banner @ [Print ''[OK] Konfigurasi berhasil dimuat'', Print (error_report e)]
            \<and> filter is_read (main w stdin) = []
            \<and> filter is_call (main w stdin) = []"
      by (simp add: m banner_def)
  }
  with su show ?thesis by blast
qed

theorem embedding_failure_aborts_witness:
  "setup_rag_system world_offline (config_doc demo_config) =
      ([], Inl (Exn OtherException ''Connection error.''))
   \<and> main world_offline [''What is the capital of France?'', ''quit''] =
       banner @ [Print ''[OK] Konfigurasi berhasil dimuat'', Print ''[Error]: Connection error.'']"
proof -
  have kf: "getitem2 (config_doc demo_config) ''data'' ''knowledge_file'' = Inr (JStr ''notes.txt'')"
    by code_simp
  have ex: "os_path_exists world_offline (JStr ''notes.txt'') = Inr True" by code_simp
  have rd: "open_read world_offline (JStr ''notes.txt'') = Inr ''Paris is the capital of France.''"
    by code_simp
  have cs: "getitem2 (config_doc demo_config) ''rag'' ''chunk_size'' = Inr (JInt 200)"
    by code_simp
  have co: "getitem2 (config_doc demo_config) ''rag'' ''chunk_overlap'' = Inr (JInt 50)"
    by code_simp
  have sp: "text_splitter world_offline (JInt 200) (JInt 50) =
      Inr (RecursiveCharacterTextSplitter (JInt 200) (JInt 50))" by code_simp
  have ds: "create_documents world_offline (RecursiveCharacterTextSplitter (JInt 200) (JInt 50))
      ''Paris is the capital of France.'' = Inr [Document ''Paris is the capital of France.'']"
    by code_simp
  have em: "getitem2 (config_doc demo_config) ''openai'' ''embedding_model'' =
      Inr (JStr ''text-embedding-3-small'')" by code_simp
  have key: "getitem2 (config_doc demo_config) ''openai'' ''api_key'' = Inr (JStr ''sk-demo'')"
    by code_simp
  have fl: "openai_embeddings world_offline (JStr ''text-embedding-3-small'') (JStr ''sk-demo'') =
        Inl (Exn OtherException ''Connection error.'')
      \<or> (openai_embeddings world_offline (JStr ''text-embedding-3-small'') (JStr ''sk-demo'') =
          Inr (OpenAIEmbeddings (JStr ''text-embedding-3-small'') (JStr ''sk-demo''))
        \<and> faiss_from_documents world_offline [Document ''Paris is the capital of France.'']
            (OpenAIEmbeddings (JStr ''text-embedding-3-small'') (JStr ''sk-demo'')) =
          Inl (Exn OtherException ''Connection error.''))"
    by code_simp
  have lc: "load_config world_offline = Inr (config_doc demo_config)" by code_simp
  have er: "error_report (Exn OtherException ''Connection error.'') = ''[Error]: Connection error.''"
    by code_simp
  show ?thesis
    using embedding_failure_aborts [OF kf ex rd cs co sp ds em key fl,
        of "[''What is the capital of France?'', ''quit'']"] lc
    by (simp add: er)
qed

section \<open>Missing keys\<close>




end
